theory Spec2Isabelle
  imports Main
begin

section \<open>Data model\<close>

text \<open>
  \<^verbatim>\<open>GemmShape<M, N, K>\<close>: the compile-time extents of a tile. The source reads them as
  \<^verbatim>\<open>Shape::kM\<close>, \<^verbatim>\<open>Shape::kN\<close>, \<^verbatim>\<open>Shape::kK\<close>; the products \<^verbatim>\<open>kMK\<close>, \<^verbatim>\<open>kKN\<close>, \<^verbatim>\<open>kMN\<close> size
  the fragments. Extents, loop counters and coordinates are \<^verbatim>\<open>int\<close> in the source and never
  negative (a counter runs from \<open>0\<close> to below an extent), so they are natural numbers here.
\<close>

record GemmShape =
  kM :: nat
  kN :: nat
  kK :: nat

text \<open>
  The two plain matrix layouts of the CUTLASS library (\<^verbatim>\<open>cutlass/layout/matrix.h\<close>), which
  the thread-level operands are stored in. \<^verbatim>\<open>Layout::packed(extent)\<close> builds the layout with
  the tightest stride for the extent and \<^verbatim>\<open>layout(coord)\<close> is the linear offset of a
  coordinate: row-major has stride = number of columns and offset
  \<^verbatim>\<open>row * stride + column\<close>, column-major has stride = number of rows and offset
  \<^verbatim>\<open>column * stride + row\<close>.
\<close>

datatype matrix_layout = RowMajor | ColumnMajor

type_synonym MatrixCoord = "nat \<times> nat"

fun packed :: "matrix_layout \<Rightarrow> MatrixCoord \<Rightarrow> nat" where
  "packed RowMajor (rows, cols) = cols"
| "packed ColumnMajor (rows, cols) = rows"

fun layout_offset :: "matrix_layout \<Rightarrow> nat \<Rightarrow> MatrixCoord \<Rightarrow> nat" where
  "layout_offset RowMajor stride (r, c) = r * stride + c"
| "layout_offset ColumnMajor stride (r, c) = c * stride + r"

text \<open>
  A fragment (\<^verbatim>\<open>Array<Element, N>\<close>) is a flat array of \<open>N\<close> elements, addressed by element
  index; its size is fixed by its type, which the theorems state as a hypothesis on the
  length of the list. How the library packs the elements into bytes is not modelled.

  \<^verbatim>\<open>TensorRef<Element, Layout>\<close> is a non-owning view: a pointer to the fragment and a layout
  object. \<^verbatim>\<open>ref.at(coord)\<close> is the element at \<^verbatim>\<open>layout(coord)\<close>; \<open>at\<close> reads it and \<open>at_put\<close>
  is the assignment \<^verbatim>\<open>ref.at(coord) = v\<close>. The view is given by the layout and the extent
  it was packed for.
\<close>

type_synonym 'a fragment = "'a list"

definition at :: "matrix_layout \<Rightarrow> MatrixCoord \<Rightarrow> 'a fragment \<Rightarrow> MatrixCoord \<Rightarrow> 'a" where
  "at layout extent frag coord = frag ! layout_offset layout (packed layout extent) coord"

definition at_put ::
  "matrix_layout \<Rightarrow> MatrixCoord \<Rightarrow> 'a fragment \<Rightarrow> MatrixCoord \<Rightarrow> 'a \<Rightarrow> 'a fragment" where
  "at_put layout extent frag coord v =
     frag[layout_offset layout (packed layout extent) coord := v]"

section \<open>Loops\<close>

text \<open>
  \<^verbatim>\<open>for (int i = lo; i < n; ++i) body\<close> on a state \<open>s\<close>: the counter runs upwards and the
  body transforms the state.
\<close>

function for_loop :: "nat \<Rightarrow> nat \<Rightarrow> (nat \<Rightarrow> 's \<Rightarrow> 's) \<Rightarrow> 's \<Rightarrow> 's" where
  "for_loop i n body s = (if i < n then for_loop (Suc i) n body (body i s) else s)"
  by pat_completeness auto
termination
  by (relation "measure (\<lambda>(i, n, body, s). n - i)") auto

declare for_loop.simps [simp del]

section \<open>The leaf scalar primitive\<close>

text \<open>
  Modelled from the spec: \<^verbatim>\<open>arch::Mma<GemmShape<1,1,1>, 1, ElementA, LayoutA, ElementB,
  LayoutB, ElementC, LayoutC, Operator>\<close> for a binary operand is declared in
  \<^verbatim>\<open>arch/mma_spike.h\<close>, which is not among the sources. The spec gives its contract: if the
  binary operand's bit is 1, add the other operand's scalar into the accumulator; otherwise
  leave the accumulator unchanged. The call \<^verbatim>\<open>mma_op(d, a, b, c)\<close> is modelled as the value
  of \<open>d\<close> it returns from \<open>a\<close>, \<open>b\<close> and \<open>c\<close>. The numeric operand and the accumulator have
  one element type here (no conversion between \<^verbatim>\<open>ElementB\<close> and \<^verbatim>\<open>ElementC\<close> is modelled).
\<close>

definition arch_Mma_boolA :: "bool \<Rightarrow> 'c \<Rightarrow> 'c \<Rightarrow> 'c::plus" where
  "arch_Mma_boolA a b c = (if a then c + b else c)"

definition arch_Mma_boolB :: "'c \<Rightarrow> bool \<Rightarrow> 'c \<Rightarrow> 'c::plus" where
  "arch_Mma_boolB a b c = (if b then c + a else c)"

section \<open>Thread-level accumulate\<close>

text \<open>
  \<^verbatim>\<open>int m_serpentine = (n % 2) ? (Shape::kM - 1 - m) : m;\<close>
\<close>

definition m_serpentine :: "GemmShape \<Rightarrow> nat \<Rightarrow> nat \<Rightarrow> nat" where
  "m_serpentine sh n m = (if n mod 2 \<noteq> 0 then kM sh - 1 - m else m)"

text \<open>
  \<^verbatim>\<open>MmaGeneric<Shape, bool, LayoutA, ElementB, LayoutB, ElementC, LayoutC, Operator>::operator()\<close>,
  as a function from the values of the fragments \<open>A\<close>, \<open>B\<close>, \<open>C\<close> to the value of \<open>D\<close> when
  it returns. The leaf \<^verbatim>\<open>MmaOp\<close> is the parameter \<open>mma_op\<close>.
\<close>

definition MmaGeneric_boolA ::
  "(bool \<Rightarrow> 'b \<Rightarrow> 'c \<Rightarrow> 'c) \<Rightarrow> GemmShape \<Rightarrow> matrix_layout \<Rightarrow> matrix_layout \<Rightarrow> matrix_layout \<Rightarrow>
     bool fragment \<Rightarrow> 'b fragment \<Rightarrow> 'c fragment \<Rightarrow> 'c fragment" where
  "MmaGeneric_boolA mma_op sh LayoutA LayoutB LayoutC A B C =
     (let D = C in
      for_loop 0 (kK sh) (\<lambda>k.
        for_loop 0 (kN sh) (\<lambda>n.
          for_loop 0 (kM sh) (\<lambda>m D.
            let m_serp = m_serpentine sh n m;
                mn = (m_serp, n);
                mk = (m_serp, k);
                kn = (k, n);
                d = at LayoutC (kM sh, kN sh) D mn;
                a = at LayoutA (kM sh, kK sh) A mk;
                b = at LayoutB (kK sh, kN sh) B kn;
                d' = mma_op a b d
            in at_put LayoutC (kM sh, kN sh) D mn d'))) D)"

text \<open>
  \<^verbatim>\<open>MmaGeneric<Shape, ElementA, LayoutA, bool, LayoutB, ElementC, LayoutC, Operator>::operator()\<close>:
  the same loop nest, with \<open>B\<close> the binary operand.
\<close>

definition MmaGeneric_boolB ::
  "('a \<Rightarrow> bool \<Rightarrow> 'c \<Rightarrow> 'c) \<Rightarrow> GemmShape \<Rightarrow> matrix_layout \<Rightarrow> matrix_layout \<Rightarrow> matrix_layout \<Rightarrow>
     'a fragment \<Rightarrow> bool fragment \<Rightarrow> 'c fragment \<Rightarrow> 'c fragment" where
  "MmaGeneric_boolB mma_op sh LayoutA LayoutB LayoutC A B C =
     (let D = C in
      for_loop 0 (kK sh) (\<lambda>k.
        for_loop 0 (kN sh) (\<lambda>n.
          for_loop 0 (kM sh) (\<lambda>m D.
            let m_serp = m_serpentine sh n m;
                mn = (m_serp, n);
                mk = (m_serp, k);
                kn = (k, n);
                d = at LayoutC (kM sh, kN sh) D mn;
                a = at LayoutA (kM sh, kK sh) A mk;
                b = at LayoutB (kK sh, kN sh) B kn;
                d' = mma_op a b d
            in at_put LayoutC (kM sh, kN sh) D mn d'))) D)"

text \<open>
  One iteration of the innermost loop body at the effective row index \<open>m\<close>, column \<open>n\<close> and
  depth \<open>k\<close>: read \<open>d = D(m,n)\<close>, \<open>a = A(m,k)\<close>, \<open>b = B(k,n)\<close>, call the leaf, write \<open>d\<close>
  back to \<open>D(m,n)\<close>. Both specialisations have this body; they differ in the element types.
\<close>

fun mma_cell ::
  "('a \<Rightarrow> 'b \<Rightarrow> 'c \<Rightarrow> 'c) \<Rightarrow> GemmShape \<Rightarrow> matrix_layout \<Rightarrow> matrix_layout \<Rightarrow> matrix_layout \<Rightarrow>
     'a fragment \<Rightarrow> 'b fragment \<Rightarrow> nat \<times> nat \<times> nat \<Rightarrow> 'c fragment \<Rightarrow> 'c fragment" where
  "mma_cell mma_op sh LayoutA LayoutB LayoutC A B (m, n, k) D =
     at_put LayoutC (kM sh, kN sh) D (m, n)
       (mma_op (at LayoutA (kM sh, kK sh) A (m, k))
               (at LayoutB (kK sh, kN sh) B (k, n))
               (at LayoutC (kM sh, kN sh) D (m, n)))"

text \<open>
  The loop nest of \<^verbatim>\<open>operator()\<close> with its body replaced by a recorder: the list of the
  triples (effective row index, \<open>n\<close>, \<open>k\<close>) in the order the iterations run.
\<close>

definition iteration_order :: "GemmShape \<Rightarrow> (nat \<times> nat \<times> nat) list" where
  "iteration_order sh =
     for_loop 0 (kK sh) (\<lambda>k.
       for_loop 0 (kN sh) (\<lambda>n.
         for_loop 0 (kM sh) (\<lambda>m visited.
           visited @ [(m_serpentine sh n m, n, k)]))) []"

text \<open>
  The order of the natural row-major traversal, for comparison: the row index is \<open>m\<close>
  itself, for every \<open>n\<close>.
\<close>

definition natural_order :: "GemmShape \<Rightarrow> (nat \<times> nat \<times> nat) list" where
  "natural_order sh =
     concat (map (\<lambda>k. concat (map (\<lambda>n. map (\<lambda>m. (m, n, k)) [0..<kM sh]) [0..<kN sh]))
       [0..<kK sh])"

text \<open>
  Following the spec's words, for the comparison of traversal orders: the accumulate under
  the natural row-major traversal, where \<open>m\<close> always ascends (the row index is \<open>m\<close> itself).
\<close>

definition MmaGeneric_boolA_natural ::
  "(bool \<Rightarrow> 'b \<Rightarrow> 'c \<Rightarrow> 'c) \<Rightarrow> GemmShape \<Rightarrow> matrix_layout \<Rightarrow> matrix_layout \<Rightarrow> matrix_layout \<Rightarrow>
     bool fragment \<Rightarrow> 'b fragment \<Rightarrow> 'c fragment \<Rightarrow> 'c fragment" where
  "MmaGeneric_boolA_natural mma_op sh LayoutA LayoutB LayoutC A B C =
     (let D = C in
      for_loop 0 (kK sh) (\<lambda>k.
        for_loop 0 (kN sh) (\<lambda>n.
          for_loop 0 (kM sh) (\<lambda>m D.
            let mn = (m, n);
                mk = (m, k);
                kn = (k, n);
                d = at LayoutC (kM sh, kN sh) D mn;
                a = at LayoutA (kM sh, kK sh) A mk;
                b = at LayoutB (kK sh, kN sh) B kn;
                d' = mma_op a b d
            in at_put LayoutC (kM sh, kN sh) D mn d'))) D)"

definition MmaGeneric_boolB_natural ::
  "('a \<Rightarrow> bool \<Rightarrow> 'c \<Rightarrow> 'c) \<Rightarrow> GemmShape \<Rightarrow> matrix_layout \<Rightarrow> matrix_layout \<Rightarrow> matrix_layout \<Rightarrow>
     'a fragment \<Rightarrow> bool fragment \<Rightarrow> 'c fragment \<Rightarrow> 'c fragment" where
  "MmaGeneric_boolB_natural mma_op sh LayoutA LayoutB LayoutC A B C =
     (let D = C in
      for_loop 0 (kK sh) (\<lambda>k.
        for_loop 0 (kN sh) (\<lambda>n.
          for_loop 0 (kM sh) (\<lambda>m D.
            let mn = (m, n);
                mk = (m, k);
                kn = (k, n);
                d = at LayoutC (kM sh, kN sh) D mn;
                a = at LayoutA (kM sh, kK sh) A mk;
                b = at LayoutB (kK sh, kN sh) B kn;
                d' = mma_op a b d
            in at_put LayoutC (kM sh, kN sh) D mn d'))) D)"

subsection \<open>The accumulate on fragments passed by reference\<close>

text \<open>
  \<^verbatim>\<open>operator()(FragmentC & D, FragmentA const & A, FragmentB const & B, FragmentC const & C)\<close>
  takes references. To say what a call changes, the fragments of the accumulator's element
  type live in a register file, a map from addresses to fragments, and \<open>D\<close>, \<open>C\<close> and the
  numeric operand are addresses into it; nothing stops two of them from being the same
  address. The statement \<^verbatim>\<open>D = C\<close> and every \<^verbatim>\<open>d_ref.at(mn) = d[0]\<close> write through \<open>D\<close>, and
  each iteration reads the numeric operand afresh. The binary operand has another element
  type and is never written, so it is passed as its value.
\<close>

type_synonym addr = nat

type_synonym 'c regs = "addr \<Rightarrow> 'c fragment"

definition MmaGeneric_boolA_ref ::
  "(bool \<Rightarrow> 'c \<Rightarrow> 'c \<Rightarrow> 'c) \<Rightarrow> GemmShape \<Rightarrow> matrix_layout \<Rightarrow> matrix_layout \<Rightarrow> matrix_layout \<Rightarrow>
     addr \<Rightarrow> bool fragment \<Rightarrow> addr \<Rightarrow> addr \<Rightarrow> 'c regs \<Rightarrow> 'c regs" where
  "MmaGeneric_boolA_ref mma_op sh LayoutA LayoutB LayoutC D A B C regs =
     (let regs = regs(D := regs C) in
      for_loop 0 (kK sh) (\<lambda>k.
        for_loop 0 (kN sh) (\<lambda>n.
          for_loop 0 (kM sh) (\<lambda>m regs.
            let m_serp = m_serpentine sh n m;
                mn = (m_serp, n);
                mk = (m_serp, k);
                kn = (k, n);
                d = at LayoutC (kM sh, kN sh) (regs D) mn;
                a = at LayoutA (kM sh, kK sh) A mk;
                b = at LayoutB (kK sh, kN sh) (regs B) kn;
                d' = mma_op a b d
            in regs(D := at_put LayoutC (kM sh, kN sh) (regs D) mn d')))) regs)"

definition MmaGeneric_boolB_ref ::
  "('c \<Rightarrow> bool \<Rightarrow> 'c \<Rightarrow> 'c) \<Rightarrow> GemmShape \<Rightarrow> matrix_layout \<Rightarrow> matrix_layout \<Rightarrow> matrix_layout \<Rightarrow>
     addr \<Rightarrow> addr \<Rightarrow> bool fragment \<Rightarrow> addr \<Rightarrow> 'c regs \<Rightarrow> 'c regs" where
  "MmaGeneric_boolB_ref mma_op sh LayoutA LayoutB LayoutC D A B C regs =
     (let regs = regs(D := regs C) in
      for_loop 0 (kK sh) (\<lambda>k.
        for_loop 0 (kN sh) (\<lambda>n.
          for_loop 0 (kM sh) (\<lambda>m regs.
            let m_serp = m_serpentine sh n m;
                mn = (m_serp, n);
                mk = (m_serp, k);
                kn = (k, n);
                d = at LayoutC (kM sh, kN sh) (regs D) mn;
                a = at LayoutA (kM sh, kK sh) (regs A) mk;
                b = at LayoutB (kK sh, kN sh) B kn;
                d' = mma_op a b d
            in regs(D := at_put LayoutC (kM sh, kN sh) (regs D) mn d')))) regs)"

text \<open>A register file for examples: every address holds the empty fragment.\<close>

definition no_regs :: "'c regs" where
  "no_regs = (\<lambda>p. [])"

section \<open>Thread-level dispatch wrappers\<close>

text \<open>
  \<^verbatim>\<open>Mma<Shape, bool, LayoutA, ElementB, LayoutB, ElementC, LayoutC, arch::OpMultiplyAdd, bool>\<close>
  and \<^verbatim>\<open>Mma<Shape, ElementA, LayoutA, bool, LayoutB, ElementC, LayoutC, arch::OpMultiplyAdd, bool>\<close>:
  \<^verbatim>\<open>operator()\<close> declares an \<^verbatim>\<open>MmaGeneric\<close> of the same parameters and calls it on its own
  arguments.
\<close>

definition Mma_boolA ::
  "(bool \<Rightarrow> 'b \<Rightarrow> 'c \<Rightarrow> 'c) \<Rightarrow> GemmShape \<Rightarrow> matrix_layout \<Rightarrow> matrix_layout \<Rightarrow> matrix_layout \<Rightarrow>
     bool fragment \<Rightarrow> 'b fragment \<Rightarrow> 'c fragment \<Rightarrow> 'c fragment" where
  "Mma_boolA mma_op sh LayoutA LayoutB LayoutC A B C =
     (let mma = MmaGeneric_boolA mma_op sh LayoutA LayoutB LayoutC in mma A B C)"

definition Mma_boolB ::
  "('a \<Rightarrow> bool \<Rightarrow> 'c \<Rightarrow> 'c) \<Rightarrow> GemmShape \<Rightarrow> matrix_layout \<Rightarrow> matrix_layout \<Rightarrow> matrix_layout \<Rightarrow>
     'a fragment \<Rightarrow> bool fragment \<Rightarrow> 'c fragment \<Rightarrow> 'c fragment" where
  "Mma_boolB mma_op sh LayoutA LayoutB LayoutC A B C =
     (let mma = MmaGeneric_boolB mma_op sh LayoutA LayoutB LayoutC in mma A B C)"

definition Mma_boolA_ref ::
  "(bool \<Rightarrow> 'c \<Rightarrow> 'c \<Rightarrow> 'c) \<Rightarrow> GemmShape \<Rightarrow> matrix_layout \<Rightarrow> matrix_layout \<Rightarrow> matrix_layout \<Rightarrow>
     addr \<Rightarrow> bool fragment \<Rightarrow> addr \<Rightarrow> addr \<Rightarrow> 'c regs \<Rightarrow> 'c regs" where
  "Mma_boolA_ref mma_op sh LayoutA LayoutB LayoutC D A B C regs =
     (let mma = MmaGeneric_boolA_ref mma_op sh LayoutA LayoutB LayoutC in mma D A B C regs)"

definition Mma_boolB_ref ::
  "('c \<Rightarrow> bool \<Rightarrow> 'c \<Rightarrow> 'c) \<Rightarrow> GemmShape \<Rightarrow> matrix_layout \<Rightarrow> matrix_layout \<Rightarrow> matrix_layout \<Rightarrow>
     addr \<Rightarrow> addr \<Rightarrow> bool fragment \<Rightarrow> addr \<Rightarrow> 'c regs \<Rightarrow> 'c regs" where
  "Mma_boolB_ref mma_op sh LayoutA LayoutB LayoutC D A B C regs =
     (let mma = MmaGeneric_boolB_ref mma_op sh LayoutA LayoutB LayoutC in mma D A B C regs)"

section \<open>Warp level: \<^verbatim>\<open>SpikeMmaSimt\<close>\<close>

text \<open>
  The layout and element types a warp-level or threadblock-level template is instantiated
  with, as tags. \<^verbatim>\<open>RowMajorInterleaved<k>\<close>, \<^verbatim>\<open>ColumnMajorInterleaved<k>\<close> and
  \<^verbatim>\<open>AffineRankN<r>\<close> carry their integer template argument.
\<close>

datatype layout =
    Matrix matrix_layout
  | RowMajorInterleaved int
  | ColumnMajorInterleaved int
  | AffineRankN int

datatype element = Bool_t | Int8_t | Int32_t | Half_t | Float_t | Double_t

text \<open>
  \<^verbatim>\<open>static constexpr bool use_dp4a = (is_same<ColumnMajorInterleaved<4>, LayoutA> ||
  is_same<RowMajorInterleaved<4>, LayoutA>) && is_same<ElementA, int8_t> &&
  is_same<ElementB, int8_t>;\<close> and
  \<^verbatim>\<open>using dp4a_type = conditional<use_dp4a, int8_t, bool>::type;\<close>
\<close>

definition use_dp4a :: "layout \<Rightarrow> element \<Rightarrow> element \<Rightarrow> bool" where
  "use_dp4a LayoutA ElementA ElementB =
     ((LayoutA = ColumnMajorInterleaved 4 \<or> LayoutA = RowMajorInterleaved 4) \<and>
      ElementA = Int8_t \<and> ElementB = Int8_t)"

definition dp4a_type :: "layout \<Rightarrow> element \<Rightarrow> element \<Rightarrow> element" where
  "dp4a_type LayoutA ElementA ElementB =
     (if use_dp4a LayoutA ElementA ElementB then Int8_t else Bool_t)"

text \<open>
  \<^verbatim>\<open>SpikeMmaSimt::transform(dst_A, dst_B, A, B)\<close>: the two assignments \<^verbatim>\<open>dst_A = A; dst_B = B;\<close>.
  The function takes the destinations' old values and returns their new ones. On the
  binary-operand path one of the two fragment types has element type \<^verbatim>\<open>bool\<close> and the other
  has not, so a destination of one operand is never the source of the other.
\<close>

definition transform ::
  "'a fragment \<times> 'b fragment \<Rightarrow> 'a fragment \<Rightarrow> 'b fragment \<Rightarrow> 'a fragment \<times> 'b fragment" where
  "transform dst A B =
     (case dst of (dst_A, dst_B) \<Rightarrow>
        let dst_A = A;
            dst_B = B
        in (dst_A, dst_B))"

section \<open>Threadblock level: \<^verbatim>\<open>SpikeMma\<close>\<close>

datatype operator_class = OpClassSimt | OpClassTensorOp | OpClassWmmaTensorOp

datatype SharedMemoryClearOption = kNone | kZfill | kClearLastStage

text \<open>
  The template arguments of \<^verbatim>\<open>SpikeMma\<close> that decide which definition is instantiated and
  whether its assertion holds.
\<close>

record SpikeMma_args =
  LayoutC :: layout
  OperatorClass :: operator_class
  Stages :: int
  AccumulatorsInRowMajor :: bool
  SharedMemoryClear :: SharedMemoryClearOption

datatype build_error = IncompleteType | StaticAssertion string

text \<open>
  The partial specialisation \<^verbatim>\<open>SpikeMma<..., arch::OpClassSimt, ..., 2, Operator, false,
  SharedMemoryClearOption::kNone, ...>\<close> is chosen for exactly these arguments.
\<close>

definition SpikeMma_simt_selected :: "SpikeMma_args \<Rightarrow> bool" where
  "SpikeMma_simt_selected args =
     (OperatorClass args = OpClassSimt \<and> Stages args = 2 \<and>
      \<not> AccumulatorsInRowMajor args \<and> SharedMemoryClear args = kNone)"

text \<open>
  Instantiating \<^verbatim>\<open>SpikeMma\<close>. The primary template is declared and never defined, so any
  other choice of arguments names an incomplete type. In the specialisation,
  \<^verbatim>\<open>static_assert(is_same<LayoutC, layout::RowMajor>::value ||
  is_same<LayoutC, layout::AffineRankN<2>>::value, "simt epilogue must be row major")\<close>
  stops the build. \<open>Inr ()\<close> says that no error comes from \<^verbatim>\<open>SpikeMma\<close> itself.
\<close>

definition SpikeMma_instantiate :: "SpikeMma_args \<Rightarrow> build_error + unit" where
  "SpikeMma_instantiate args =
     (if SpikeMma_simt_selected args then
        (if LayoutC args = Matrix RowMajor \<or> LayoutC args = AffineRankN 2 then Inr ()
         else Inl (StaticAssertion ''simt epilogue must be row major''))
      else Inl IncompleteType)"

section \<open>Test harness\<close>

text \<open>
  A matrix written as the list of its rows, stored as a fragment in a packed layout.
\<close>

fun to_fragment :: "matrix_layout \<Rightarrow> 'a list list \<Rightarrow> 'a fragment" where
  "to_fragment RowMajor rows = concat rows"
| "to_fragment ColumnMajor rows = concat (transpose rows)"

section \<open>Theorems\<close>

lemma for_loop_fold: "for_loop i n body s = fold body [i..<n] s"
proof (induction i n body s rule: for_loop.induct)
  case (1 i n body s)
  show ?case
  proof (cases "i < n")
    case True
    with "1" show ?thesis
      by (simp add: for_loop.simps [of i] upt_conv_Cons)
  next
    case False
    then show ?thesis by (simp add: for_loop.simps [of i])
  qed
qed

subsection \<open>The loop nest as a fold over its iteration order\<close>

lemma fold_snoc_map: "fold (\<lambda>x acc. acc @ [g x]) xs = (\<lambda>acc. acc @ map g xs)"
proof
  fix acc show "fold (\<lambda>x acc. acc @ [g x]) xs acc = acc @ map g xs"
    by (induction xs arbitrary: acc) simp_all
qed

lemma fold_snoc_concat: "fold (\<lambda>x acc. acc @ h x) xs = (\<lambda>acc. acc @ concat (map h xs))"
proof
  fix acc show "fold (\<lambda>x acc. acc @ h x) xs acc = acc @ concat (map h xs)"
    by (induction xs arbitrary: acc) simp_all
qed

lemma for_loop_fold_fun: "for_loop i n body = fold body [i..<n]"
  by (rule ext) (rule for_loop_fold)

lemma fold_concat_map: "fold f (concat (map g xs)) = fold (\<lambda>x. fold f (g x)) xs"
proof
  fix s show "fold f (concat (map g xs)) s = fold (\<lambda>x. fold f (g x)) xs s"
    by (induction xs arbitrary: s) simp_all
qed

lemma iteration_order_concat:
  "iteration_order sh =
     concat (map (\<lambda>k. concat (map (\<lambda>n. map (\<lambda>m. (m_serpentine sh n m, n, k)) [0..<kM sh])
       [0..<kN sh])) [0..<kK sh])"
  by (simp add: iteration_order_def for_loop_fold_fun fold_snoc_map fold_snoc_concat)

lemma loop_nest_fold:
  "for_loop 0 (kK sh) (\<lambda>k. for_loop 0 (kN sh) (\<lambda>n.
     for_loop 0 (kM sh) (\<lambda>m. step (m_serpentine sh n m, n, k)))) s
   = fold step (iteration_order sh) s"
  by (simp add: iteration_order_concat for_loop_fold_fun fold_concat_map fold_map comp_def)

lemma mma_cell_fun:
  "mma_cell mma_op sh la lb lc A B (m, n, k) =
     (\<lambda>D. at_put lc (kM sh, kN sh) D (m, n)
       (mma_op (at la (kM sh, kK sh) A (m, k)) (at lb (kK sh, kN sh) B (k, n))
               (at lc (kM sh, kN sh) D (m, n))))"
  by (rule ext) simp

lemma MmaGeneric_boolA_fold:
  "MmaGeneric_boolA mma_op sh la lb lc A B C =
     fold (mma_cell mma_op sh la lb lc A B) (iteration_order sh) C"
  unfolding loop_nest_fold [symmetric]
  by (simp add: MmaGeneric_boolA_def mma_cell_fun Let_def)

lemma MmaGeneric_boolB_fold:
  "MmaGeneric_boolB mma_op sh la lb lc A B C =
     fold (mma_cell mma_op sh la lb lc A B) (iteration_order sh) C"
  unfolding loop_nest_fold [symmetric]
  by (simp add: MmaGeneric_boolB_def mma_cell_fun Let_def)

lemma map_serp: "map (\<lambda>m. M - 1 - m) [0..<M] = rev [0..<M]"
  by (rule nth_equalityI) (simp_all add: rev_nth)

lemma serpentine_row:
  "map (m_serpentine sh n) [0..<kM sh] = (if n mod 2 = 0 then [0..<kM sh] else rev [0..<kM sh])"
proof (cases "n mod 2 = 0")
  case True
  then show ?thesis by (simp add: m_serpentine_def map_idI)
next
  case False
  have "map (m_serpentine sh n) [0..<kM sh] = map (\<lambda>m. kM sh - 1 - m) [0..<kM sh]"
    using False by (simp add: m_serpentine_def)
  with False show ?thesis by (simp only: map_serp if_False)
qed

lemma layout_offset_inj:
  assumes "m1 < M" "m2 < M" "n1 < N" "n2 < N"
    and "layout_offset lc (packed lc (M, N)) (m1, n1) = layout_offset lc (packed lc (M, N)) (m2, n2)"
  shows "m1 = m2 \<and> n1 = n2"
proof (cases lc)
  case RowMajor
  with assms have e: "m1 * N + n1 = m2 * N + n2" by simp
  from e have "(m1 * N + n1) div N = (m2 * N + n2) div N" by simp
  with assms have "m1 = m2" by simp
  with e show ?thesis by simp
next
  case ColumnMajor
  with assms have e: "n1 * M + m1 = n2 * M + m2" by simp
  from e have "(n1 * M + m1) div M = (n2 * M + m2) div M" by simp
  with assms have "n1 = n2" by simp
  with e show ?thesis by simp
qed

lemma layout_offset_less:
  assumes "m < M" "n < N"
  shows "layout_offset lc (packed lc (M, N)) (m, n) < M * N"
proof (cases lc)
  case RowMajor
  have "m * N + n < m * N + N" using assms by simp
  also have "\<dots> = Suc m * N" by simp
  also have "\<dots> \<le> M * N" using assms by (intro mult_le_mono1) simp
  finally show ?thesis using RowMajor by simp
next
  case ColumnMajor
  have "n * M + m < n * M + M" using assms by simp
  also have "\<dots> = Suc n * M" by simp
  also have "\<dots> \<le> N * M" using assms by (intro mult_le_mono1) simp
  finally show ?thesis using ColumnMajor by (simp add: mult.commute)
qed

lemma mma_cell_commute:
  assumes "layout_offset lc (packed lc (kM sh, kN sh)) (m1, n1) \<noteq>
           layout_offset lc (packed lc (kM sh, kN sh)) (m2, n2)"
  shows "mma_cell mma_op sh la lb lc A B (m1, n1, k1) (mma_cell mma_op sh la lb lc A B (m2, n2, k2) D)
       = mma_cell mma_op sh la lb lc A B (m2, n2, k2) (mma_cell mma_op sh la lb lc A B (m1, n1, k1) D)"
  using assms by (simp add: at_def at_put_def list_update_swap)

lemma mma_cell_row_commute:
  assumes "m1 < kM sh" "m2 < kM sh" "n < kN sh"
  shows "mma_cell mma_op sh la lb lc A B (m1, n, k) \<circ> mma_cell mma_op sh la lb lc A B (m2, n, k)
       = mma_cell mma_op sh la lb lc A B (m2, n, k) \<circ> mma_cell mma_op sh la lb lc A B (m1, n, k)"
proof (cases "m1 = m2")
  case True
  then show ?thesis by simp
next
  case False
  with assms layout_offset_inj [of m1 "kM sh" m2 n "kN sh" n lc]
  have "layout_offset lc (packed lc (kM sh, kN sh)) (m1, n) \<noteq>
        layout_offset lc (packed lc (kM sh, kN sh)) (m2, n)"
    by blast
  then show ?thesis
    by (intro ext) (simp only: comp_apply mma_cell_commute)
qed

lemma MmaGeneric_boolA_natural_fold:
  "MmaGeneric_boolA_natural mma_op sh la lb lc A B C =
     fold (mma_cell mma_op sh la lb lc A B) (natural_order sh) C"
  by (simp add: MmaGeneric_boolA_natural_def natural_order_def mma_cell_fun Let_def
      for_loop_fold_fun fold_concat_map fold_map comp_def)

lemma serpentine_fold_natural:
  "fold (mma_cell mma_op sh la lb lc A B) (iteration_order sh) =
   fold (mma_cell mma_op sh la lb lc A B) (natural_order sh)"
proof -
  let ?cell = "mma_cell mma_op sh la lb lc A B"
  have row: "fold ?cell (map (\<lambda>m. (m_serpentine sh n m, n, k)) [0..<kM sh]) =
             fold ?cell (map (\<lambda>m. (m, n, k)) [0..<kM sh])" if n: "n < kN sh" for n k
  proof (cases "n mod 2 = 0")
    case True
    then show ?thesis by (simp add: m_serpentine_def)
  next
    case False
    have "map (\<lambda>m. (m_serpentine sh n m, n, k)) [0..<kM sh] =
          map (\<lambda>m. (m, n, k)) (map (m_serpentine sh n) [0..<kM sh])"
      by (simp add: comp_def)
    also have "\<dots> = rev (map (\<lambda>m. (m, n, k)) [0..<kM sh])"
      using False by (simp only: serpentine_row if_False rev_map)
    finally have e: "map (\<lambda>m. (m_serpentine sh n m, n, k)) [0..<kM sh] =
                     rev (map (\<lambda>m. (m, n, k)) [0..<kM sh])" .
    show ?thesis
      unfolding e
    proof (rule fold_rev)
      fix x y
      assume "x \<in> set (map (\<lambda>m. (m, n, k)) [0..<kM sh])"
        and "y \<in> set (map (\<lambda>m. (m, n, k)) [0..<kM sh])"
      then obtain m1 m2 where "x = (m1, n, k)" "m1 < kM sh" "y = (m2, n, k)" "m2 < kM sh"
        by auto
      with n show "?cell y \<circ> ?cell x = ?cell x \<circ> ?cell y"
        by (simp only: mma_cell_row_commute)
    qed
  qed
  have "fold ?cell (concat (map (\<lambda>n. map (\<lambda>m. (m_serpentine sh n m, n, k)) [0..<kM sh]) [0..<kN sh]))
      = fold ?cell (concat (map (\<lambda>n. map (\<lambda>m. (m, n, k)) [0..<kM sh]) [0..<kN sh]))" for k
    unfolding fold_concat_map
    by (rule ext, rule fold_cong) (simp_all add: row)
  then show ?thesis
    unfolding iteration_order_concat natural_order_def fold_concat_map [of _ _ "[0..<kK sh]"]
    by simp
qed

lemma MmaGeneric_boolB_natural_fold:
  "MmaGeneric_boolB_natural mma_op sh la lb lc A B C =
     fold (mma_cell mma_op sh la lb lc A B) (natural_order sh) C"
  by (simp add: MmaGeneric_boolB_natural_def natural_order_def mma_cell_fun Let_def
      for_loop_fold_fun fold_concat_map fold_map comp_def)

subsection \<open>Traversal order\<close>

text \<open>
  C3. For every input (and every leaf primitive), the thread-level accumulate with the
  serpentine traversal of \<open>m\<close>, as the source has it, yields the same output fragment \<open>D\<close> as
  the accumulate with the natural row-major traversal (\<open>m\<close> always ascending); this holds
  for the specialisation with binary \<open>A\<close> and for the one with binary \<open>B\<close>.
\<close>

theorem serpentine_equals_natural:
  "MmaGeneric_boolA mma_opA sh la lb lc A B C =
     MmaGeneric_boolA_natural mma_opA sh la lb lc A B C \<and>
   MmaGeneric_boolB mma_opB sh la lb lc A' B' C =
     MmaGeneric_boolB_natural mma_opB sh la lb lc A' B' C"
  by (simp only: MmaGeneric_boolA_fold MmaGeneric_boolB_fold MmaGeneric_boolA_natural_fold
      MmaGeneric_boolB_natural_fold serpentine_fold_natural)

subsection \<open>The structure of the loop nest\<close>

lemma iteration_order_serpentine:
  "iteration_order sh =
     concat (map (\<lambda>k. concat (map (\<lambda>n.
        map (\<lambda>m. (m, n, k)) (if n mod 2 = 0 then [0..<kM sh] else rev [0..<kM sh]))
       [0..<kN sh])) [0..<kK sh])"
proof -
  have row: "map (\<lambda>m. (m_serpentine sh n m, n, k)) [0..<kM sh] =
        map (\<lambda>m. (m, n, k)) (if n mod 2 = 0 then [0..<kM sh] else rev [0..<kM sh])" for n k
    unfolding serpentine_row [symmetric] by (simp add: comp_def)
  show ?thesis by (simp only: iteration_order_concat row)
qed

lemma m_serpentine_less: "m < kM sh \<Longrightarrow> m_serpentine sh n m < kM sh"
  by (simp add: m_serpentine_def)

lemma m_serpentine_invol: "m < kM sh \<Longrightarrow> m_serpentine sh n (m_serpentine sh n m) = m"
  by (simp add: m_serpentine_def)

lemma iteration_order_product:
  "iteration_order sh =
     map (\<lambda>(k, n, m). (m_serpentine sh n m, n, k))
       (List.product [0..<kK sh] (List.product [0..<kN sh] [0..<kM sh]))"
  by (simp add: iteration_order_concat product_concat_map map_concat comp_def)

lemma set_iteration_order:
  "set (iteration_order sh) = {0..<kM sh} \<times> {0..<kN sh} \<times> {0..<kK sh}"
proof (intro set_eqI iffI)
  fix t assume "t \<in> set (iteration_order sh)"
  then show "t \<in> {0..<kM sh} \<times> {0..<kN sh} \<times> {0..<kK sh}"
    by (auto simp: iteration_order_product m_serpentine_less)
next
  fix t assume t: "t \<in> {0..<kM sh} \<times> {0..<kN sh} \<times> {0..<kK sh}"
  obtain m n k where [simp]: "t = (m, n, k)" by (cases t)
  from t have "(k, n, m_serpentine sh n m) \<in> set (List.product [0..<kK sh] (List.product [0..<kN sh] [0..<kM sh]))"
    by (simp add: m_serpentine_less)
  moreover from t have "(\<lambda>(k, n, m). (m_serpentine sh n m, n, k)) (k, n, m_serpentine sh n m) = t"
    by (simp add: m_serpentine_invol)
  ultimately show "t \<in> set (iteration_order sh)"
    unfolding iteration_order_product set_map by (rule image_eqI [rotated, OF _ sym])
qed

lemma distinct_iteration_order: "distinct (iteration_order sh)"
proof -
  have "inj_on (\<lambda>(k, n, m). (m_serpentine sh n m, n, k))
          (set (List.product [0..<kK sh] (List.product [0..<kN sh] [0..<kM sh])))"
  proof (rule inj_onI)
    fix x y
    assume x: "x \<in> set (List.product [0..<kK sh] (List.product [0..<kN sh] [0..<kM sh]))"
      and y: "y \<in> set (List.product [0..<kK sh] (List.product [0..<kN sh] [0..<kM sh]))"
      and e: "(case x of (k, n, m) \<Rightarrow> (m_serpentine sh n m, n, k)) =
              (case y of (k, n, m) \<Rightarrow> (m_serpentine sh n m, n, k))"
    obtain k n m where [simp]: "x = (k, n, m)" by (cases x)
    obtain k' n' m' where [simp]: "y = (k', n', m')" by (cases y)
    from e have kn: "k = k'" "n = n'" and ms: "m_serpentine sh n m = m_serpentine sh n m'"
      by auto
    from x y have "m < kM sh" "m' < kM sh" by simp_all
    with ms have "m = m'" by (metis m_serpentine_invol)
    with kn show "x = y" by simp
  qed
  then show ?thesis
    by (simp add: iteration_order_product distinct_map distinct_product)
qed

text \<open>
  C4. The accumulate starts from \<open>D = C\<close> and runs the loop body once per entry of the
  iteration order, in that order; one run of the body replaces the single cell \<open>D(m,n)\<close>.
  The iteration order has \<open>k\<close> outermost, then \<open>n\<close>, then \<open>m\<close> innermost, the row index
  running \<open>0\<close> up to \<open>M - 1\<close> for even \<open>n\<close> and \<open>M - 1\<close> down to \<open>0\<close> for odd \<open>n\<close>; it has no
  repetition and is made of all the triples of \<open>[0,M) \<times> [0,N) \<times> [0,K)\<close>.
\<close>

theorem loop_nest_structure:
  "MmaGeneric_boolA mma_opA sh la lb lc A B C =
     fold (mma_cell mma_opA sh la lb lc A B) (iteration_order sh) C \<and>
   MmaGeneric_boolB mma_opB sh la lb lc A' B' C =
     fold (mma_cell mma_opB sh la lb lc A' B') (iteration_order sh) C \<and>
   mma_cell mma_opA sh la lb lc A B (m, n, k) D =
     D[layout_offset lc (packed lc (kM sh, kN sh)) (m, n) :=
         mma_opA (at la (kM sh, kK sh) A (m, k)) (at lb (kK sh, kN sh) B (k, n))
                 (D ! layout_offset lc (packed lc (kM sh, kN sh)) (m, n))] \<and>
   iteration_order sh =
     concat (map (\<lambda>k. concat (map (\<lambda>n.
        map (\<lambda>m. (m, n, k)) (if n mod 2 = 0 then [0..<kM sh] else rev [0..<kM sh]))
       [0..<kN sh])) [0..<kK sh]) \<and>
   distinct (iteration_order sh) \<and>
   set (iteration_order sh) = {0..<kM sh} \<times> {0..<kN sh} \<times> {0..<kK sh}"
proof (intro conjI)
  show "mma_cell mma_opA sh la lb lc A B (m, n, k) D =
     D[layout_offset lc (packed lc (kM sh, kN sh)) (m, n) :=
         mma_opA (at la (kM sh, kK sh) A (m, k)) (at lb (kK sh, kN sh) B (k, n))
                 (D ! layout_offset lc (packed lc (kM sh, kN sh)) (m, n))]"
    by (simp add: at_def at_put_def)
qed (fact MmaGeneric_boolA_fold MmaGeneric_boolB_fold iteration_order_serpentine
      distinct_iteration_order set_iteration_order)+

subsection \<open>What the accumulate computes\<close>

lemma length_mma_cell [simp]: "length (mma_cell mma_op sh la lb lc A B t D) = length D"
  by (cases t) (simp add: at_put_def)

lemma at_mma_cell:
  assumes "length D = kM sh * kN sh" "m < kM sh" "n < kN sh" "m' < kM sh" "n' < kN sh"
  shows "at lc (kM sh, kN sh) (mma_cell mma_op sh la lb lc A B (m, n, k) D) (m', n') =
         (if m = m' \<and> n = n'
          then mma_op (at la (kM sh, kK sh) A (m', k)) (at lb (kK sh, kN sh) B (k, n'))
                 (at lc (kM sh, kN sh) D (m', n'))
          else at lc (kM sh, kN sh) D (m', n'))"
proof (cases "m = m' \<and> n = n'")
  case True
  with assms layout_offset_less [of m' "kM sh" n' "kN sh" lc] show ?thesis
    by (simp add: at_def at_put_def)
next
  case False
  with assms layout_offset_inj [of m "kM sh" m' n "kN sh" n' lc]
  have "layout_offset lc (packed lc (kM sh, kN sh)) (m, n) \<noteq>
        layout_offset lc (packed lc (kM sh, kN sh)) (m', n')"
    by blast
  with False show ?thesis by (auto simp add: at_def at_put_def)
qed

lemma at_fold_mma_cell:
  assumes "length D = kM sh * kN sh"
    and "\<And>t. t \<in> set ts \<Longrightarrow> fst t < kM sh \<and> fst (snd t) < kN sh"
    and "m < kM sh" "n < kN sh"
  shows "at lc (kM sh, kN sh) (fold (mma_cell mma_op sh la lb lc A B) ts D) (m, n) =
         fold (\<lambda>k. mma_op (at la (kM sh, kK sh) A (m, k)) (at lb (kK sh, kN sh) B (k, n)))
           (map (\<lambda>t. snd (snd t)) (filter (\<lambda>t. fst t = m \<and> fst (snd t) = n) ts))
           (at lc (kM sh, kN sh) D (m, n))"
  using assms(1,2)
proof (induction ts arbitrary: D)
  case Nil
  then show ?case by simp
next
  case (Cons t ts)
  let ?cell = "mma_cell mma_op sh la lb lc A B"
  let ?g = "\<lambda>k. mma_op (at la (kM sh, kK sh) A (m, k)) (at lb (kK sh, kN sh) B (k, n))"
  let ?ks = "\<lambda>ts. map (\<lambda>t. snd (snd t)) (filter (\<lambda>t. fst t = m \<and> fst (snd t) = n) ts)"
  obtain m1 n1 k1 where t: "t = (m1, n1, k1)" by (cases t)
  from Cons.prems(2) [of t] t have r: "m1 < kM sh" "n1 < kN sh" by simp_all
  have step: "at lc (kM sh, kN sh) (?cell t D) (m, n) =
              (if m1 = m \<and> n1 = n then ?g k1 (at lc (kM sh, kN sh) D (m, n))
               else at lc (kM sh, kN sh) D (m, n))"
    unfolding t by (rule at_mma_cell [OF Cons.prems(1) r assms(3,4)])
  have "at lc (kM sh, kN sh) (fold ?cell (t # ts) D) (m, n) =
        at lc (kM sh, kN sh) (fold ?cell ts (?cell t D)) (m, n)"
    by simp
  also have "\<dots> = fold ?g (?ks ts) (at lc (kM sh, kN sh) (?cell t D) (m, n))"
    using Cons.prems by (intro Cons.IH) simp_all
  also have "\<dots> = fold ?g (?ks (t # ts)) (at lc (kM sh, kN sh) D (m, n))"
    unfolding step by (simp add: t)
  finally show ?case .
qed

lemma filter_eq_upt: "filter (\<lambda>x. x = c) [0..<n] = (if c < n then [c] else [])"
  by (induction n) auto

lemma concat_single_upt:
  "c < n \<Longrightarrow> concat (map (\<lambda>x. if x = c then f x else []) [0..<n]) = f c"
  by (induction n) (auto simp: less_Suc_eq)

lemma map_filter_concat_map:
  "map g (filter P (concat (map f xs))) = concat (map (\<lambda>x. map g (filter P (f x))) xs)"
  by (simp add: filter_concat map_concat comp_def)

lemma natural_order_depths:
  assumes "m < kM sh" "n < kN sh"
  shows "map (\<lambda>t. snd (snd t)) (filter (\<lambda>t. fst t = m \<and> fst (snd t) = n) (natural_order sh))
         = [0..<kK sh]"
proof -
  let ?g = "\<lambda>t::nat \<times> nat \<times> nat. snd (snd t)"
  let ?P = "\<lambda>t::nat \<times> nat \<times> nat. fst t = m \<and> fst (snd t) = n"
  have row: "map ?g (filter ?P (map (\<lambda>m'. (m', n', k)) [0..<kM sh])) =
             (if n' = n then [k] else [])" for n' k
    using assms(1) by (simp add: filter_map comp_def filter_eq_upt)
  have col: "map ?g (filter ?P
               (concat (map (\<lambda>n'. map (\<lambda>m'. (m', n', k)) [0..<kM sh]) [0..<kN sh]))) = [k]" for k
  proof -
    have "map ?g (filter ?P
               (concat (map (\<lambda>n'. map (\<lambda>m'. (m', n', k)) [0..<kM sh]) [0..<kN sh]))) =
          concat (map (\<lambda>n'. map ?g (filter ?P (map (\<lambda>m'. (m', n', k)) [0..<kM sh]))) [0..<kN sh])"
      by (rule map_filter_concat_map)
    also have "\<dots> = concat (map (\<lambda>n'. if n' = n then [k] else []) [0..<kN sh])"
      by (simp only: row)
    also have "\<dots> = [k]"
      by (rule concat_single_upt [OF assms(2)])
    finally show ?thesis .
  qed
  have "map ?g (filter ?P (natural_order sh)) =
        concat (map (\<lambda>k. map ?g (filter ?P
          (concat (map (\<lambda>n'. map (\<lambda>m'. (m', n', k)) [0..<kM sh]) [0..<kN sh])))) [0..<kK sh])"
    unfolding natural_order_def by (rule map_filter_concat_map)
  also have "\<dots> = concat (map (\<lambda>k. [k]) [0..<kK sh])"
    by (simp only: col)
  also have "\<dots> = [0..<kK sh]"
    by (induction "kK sh") simp_all
  finally show ?thesis .
qed

lemma fold_arch_Mma_boolA:
  fixes c :: "'c::monoid_add"
  shows "fold (\<lambda>k. arch_Mma_boolA (a k) (b k)) ks c = c + (\<Sum>k\<leftarrow>ks. if a k then b k else 0)"
  by (induction ks arbitrary: c) (simp_all add: arch_Mma_boolA_def add.assoc)

lemma fold_arch_Mma_boolB:
  fixes c :: "'c::monoid_add"
  shows "fold (\<lambda>k. arch_Mma_boolB (a k) (b k)) ks c = c + (\<Sum>k\<leftarrow>ks. if b k then a k else 0)"
  by (induction ks arbitrary: c) (simp_all add: arch_Mma_boolB_def add.assoc)

lemma natural_order_in_range:
  "t \<in> set (natural_order sh) \<Longrightarrow> fst t < kM sh \<and> fst (snd t) < kN sh"
  by (auto simp: natural_order_def)

text \<open>
  C1. For every thread-tile shape, binary operand \<open>A\<close> and fragments \<open>B\<close>, \<open>C\<close> over any
  numeric type whose addition is associative with unit \<open>0\<close>, all sized to the tile, the
  accumulate (with the leaf primitive of the spec) produces \<open>D\<close> with
  \<open>D(m,n) = C(m,n) + \<Sum>k<K. (if A(m,k) then B(k,n) else 0)\<close> for every \<open>m < M\<close> and
  \<open>n < N\<close>. (\<open>m < M\<close> and \<open>n < N\<close> make \<open>M\<close> and \<open>N\<close> positive; \<open>K\<close> may be \<open>0\<close>.)
\<close>

theorem MmaGeneric_boolA_correct:
  fixes B C :: "'c::monoid_add fragment"
  assumes "length A = kM sh * kK sh" "length B = kK sh * kN sh" "length C = kM sh * kN sh"
    and "m < kM sh" "n < kN sh"
  shows "at lc (kM sh, kN sh) (MmaGeneric_boolA arch_Mma_boolA sh la lb lc A B C) (m, n) =
         at lc (kM sh, kN sh) C (m, n) +
         (\<Sum>k\<leftarrow>[0..<kK sh]. if at la (kM sh, kK sh) A (m, k)
                            then at lb (kK sh, kN sh) B (k, n) else 0)"
  unfolding MmaGeneric_boolA_fold serpentine_fold_natural
  by (simp only: at_fold_mma_cell [OF assms(3) natural_order_in_range assms(4,5)]
      natural_order_depths [OF assms(4,5)] fold_arch_Mma_boolA)

theorem MmaGeneric_boolA_correct_witness:
  "length [True, False, False, True] = 2 * 2 \<and> length [2, 3, 4, 5 :: int] = 2 * 2 \<and>
   length [10, 20, 30, 40 :: int] = 2 * 2 \<and> (1 :: nat) < 2 \<and> (0 :: nat) < 2 \<and>
   at ColumnMajor (2, 2)
     (MmaGeneric_boolA arch_Mma_boolA \<lparr>kM = 2, kN = 2, kK = 2\<rparr> RowMajor RowMajor ColumnMajor
        [True, False, False, True] [2, 3, 4, 5] [10, 20, 30, 40]) (1, 0) = (24 :: int)"
  using MmaGeneric_boolA_correct [where sh = "\<lparr>kM = 2, kN = 2, kK = 2\<rparr>" and la = RowMajor
      and lb = RowMajor and lc = ColumnMajor and A = "[True, False, False, True]"
      and B = "[2, 3, 4, 5 :: int]" and C = "[10, 20, 30, 40]" and m = 1 and n = 0]
  by (simp add: at_def upt_rec [of _ 2] upt_rec [of _ "Suc (Suc 0)"] numeral_2_eq_2)

text \<open>
  C2. Symmetrically, with \<open>B\<close> the binary operand:
  \<open>D(m,n) = C(m,n) + \<Sum>k<K. (if B(k,n) then A(m,k) else 0)\<close> for every \<open>m < M\<close> and
  \<open>n < N\<close>.
\<close>

theorem MmaGeneric_boolB_correct:
  fixes A C :: "'c::monoid_add fragment"
  assumes "length A = kM sh * kK sh" "length B = kK sh * kN sh" "length C = kM sh * kN sh"
    and "m < kM sh" "n < kN sh"
  shows "at lc (kM sh, kN sh) (MmaGeneric_boolB arch_Mma_boolB sh la lb lc A B C) (m, n) =
         at lc (kM sh, kN sh) C (m, n) +
         (\<Sum>k\<leftarrow>[0..<kK sh]. if at lb (kK sh, kN sh) B (k, n)
                            then at la (kM sh, kK sh) A (m, k) else 0)"
  unfolding MmaGeneric_boolB_fold serpentine_fold_natural
  by (simp only: at_fold_mma_cell [OF assms(3) natural_order_in_range assms(4,5)]
      natural_order_depths [OF assms(4,5)] fold_arch_Mma_boolB)

theorem MmaGeneric_boolB_correct_witness:
  "length [2, 3, 4, 5 :: int] = 2 * 2 \<and> length [True, True, False, True] = 2 * 2 \<and>
   length [10, 20, 30, 40 :: int] = 2 * 2 \<and> (1 :: nat) < 2 \<and> (1 :: nat) < 2 \<and>
   at RowMajor (2, 2)
     (MmaGeneric_boolB arch_Mma_boolB \<lparr>kM = 2, kN = 2, kK = 2\<rparr> RowMajor RowMajor RowMajor
        [2, 3, 4, 5] [True, True, False, True] [10, 20, 30, 40]) (1, 1) = (49 :: int)"
  using MmaGeneric_boolB_correct [where sh = "\<lparr>kM = 2, kN = 2, kK = 2\<rparr>" and la = RowMajor
      and lb = RowMajor and lc = RowMajor and A = "[2, 3, 4, 5 :: int]"
      and B = "[True, True, False, True]" and C = "[10, 20, 30, 40]" and m = 1 and n = 1]
  by (simp add: at_def upt_rec [of _ 2] upt_rec [of _ "Suc (Suc 0)"] numeral_2_eq_2)

subsection \<open>The concrete 2 x 2 x 2 case\<close>

text \<open>
  C8. For the thread-tile shape M = 2, N = 2, K = 2, with the binary operand
  A = [[1,0],[0,1]], B = [[2,3],[4,5]] and C all zero, the thread-level accumulate (with the
  leaf primitive of the spec) produces D = [[2,3],[4,5]], whichever packed layouts the three
  fragments are stored in.
\<close>

theorem MmaGeneric_boolA_2x2x2:
  "MmaGeneric_boolA arch_Mma_boolA \<lparr>kM = 2, kN = 2, kK = 2\<rparr> la lb lc
     (to_fragment la [[True, False], [False, True]])
     (to_fragment lb [[2, 3], [4, 5]])
     (to_fragment lc [[0, 0], [0, 0]])
   = to_fragment lc [[2, 3], [4, 5 :: int]]"
  by (cases la; cases lb; cases lc)
     (simp_all add: MmaGeneric_boolA_def for_loop_fold upt_rec [of _ 2]
        upt_rec [of _ "Suc (Suc 0)"] numeral_2_eq_2 m_serpentine_def at_def at_put_def
        arch_Mma_boolA_def)

subsection \<open>What a call changes\<close>

lemma MmaGeneric_boolA_ref_fold:
  "MmaGeneric_boolA_ref mma_op sh la lb lc D A B C regs =
     fold (\<lambda>t regs. regs(D := mma_cell mma_op sh la lb lc A (regs B) t (regs D)))
       (iteration_order sh) (regs(D := regs C))"
  unfolding loop_nest_fold [symmetric]
  by (simp add: MmaGeneric_boolA_ref_def mma_cell_fun Let_def)

lemma MmaGeneric_boolB_ref_fold:
  "MmaGeneric_boolB_ref mma_op sh la lb lc D A B C regs =
     fold (\<lambda>t regs. regs(D := mma_cell mma_op sh la lb lc (regs A) B t (regs D)))
       (iteration_order sh) (regs(D := regs C))"
  unfolding loop_nest_fold [symmetric]
  by (simp add: MmaGeneric_boolB_ref_def mma_cell_fun Let_def)

lemma fold_write_frame:
  "p \<noteq> D \<Longrightarrow> fold (\<lambda>t regs. regs(D := g t regs)) ts regs p = regs p"
  by (induction ts arbitrary: regs) simp_all

lemma fold_write_length:
  assumes "\<And>t regs. length (g t regs) = length (regs D)"
  shows "length (fold (\<lambda>t regs. regs(D := g t regs)) ts regs D) = length (regs D)"
  by (induction ts arbitrary: regs) (simp_all add: assms)

lemma MmaGeneric_boolA_ref_value:
  assumes "B \<noteq> D"
  shows "MmaGeneric_boolA_ref mma_op sh la lb lc D A B C regs =
         regs(D := MmaGeneric_boolA mma_op sh la lb lc A (regs B) (regs C))"
proof -
  have "fold (\<lambda>t regs. regs(D := mma_cell mma_op sh la lb lc A (regs B) t (regs D))) ts r =
        r(D := fold (mma_cell mma_op sh la lb lc A (r B)) ts (r D))" for ts and r :: "'a regs"
    using assms by (induction ts arbitrary: r) simp_all
  then show ?thesis
    using assms by (simp add: MmaGeneric_boolA_ref_fold MmaGeneric_boolA_fold)
qed

lemma MmaGeneric_boolB_ref_value:
  assumes "A \<noteq> D"
  shows "MmaGeneric_boolB_ref mma_op sh la lb lc D A B C regs =
         regs(D := MmaGeneric_boolB mma_op sh la lb lc (regs A) B (regs C))"
proof -
  have "fold (\<lambda>t regs. regs(D := mma_cell mma_op sh la lb lc (regs A) B t (regs D))) ts r =
        r(D := fold (mma_cell mma_op sh la lb lc (r A) B) ts (r D))" for ts and r :: "'a regs"
    using assms by (induction ts arbitrary: r) simp_all
  then show ?thesis
    using assms by (simp add: MmaGeneric_boolB_ref_fold MmaGeneric_boolB_fold)
qed

text \<open>
  C9, as the claim states it, fails when \<open>C\<close> and \<open>D\<close> are the same fragment, which the
  signature allows (both are references to \<^verbatim>\<open>FragmentC\<close>) and which is how a mainloop
  accumulates in place: for the 1 x 1 x 1 tile with \<open>A = [1]\<close>, \<open>B = [5]\<close> and \<open>C = D = [0]\<close>
  at address \<open>0\<close>, the fragment at the address of \<open>C\<close> holds \<open>[5]\<close> after the call and held
  \<open>[0]\<close> before it.
\<close>

theorem in_place_call_overwrites_C:
  "MmaGeneric_boolA_ref arch_Mma_boolA \<lparr>kM = 1, kN = 1, kK = 1\<rparr> RowMajor RowMajor RowMajor
     0 [True] 1 0 (no_regs(0 := [0 :: int], 1 := [5])) 0 = [5] \<and>
   (no_regs(0 := [0 :: int], 1 := [5])) 0 = [0]"
  by (simp add: MmaGeneric_boolA_ref_def for_loop.simps [of 0] for_loop.simps [of "Suc 0"] m_serpentine_def at_def at_put_def
      arch_Mma_boolA_def)

text \<open>
  C9, amended. A call writes through \<open>D\<close> only: every fragment at an address other than
  \<open>D\<close> keeps its value (so the numeric operand and \<open>C\<close> are unchanged whenever they are not
  the object \<open>D\<close>; the binary operand cannot be written at all); \<open>D\<close> ends with the size of
  \<open>C\<close>; and when the numeric operand is not the object \<open>D\<close>, the final \<open>D\<close> is the
  value-level accumulate of the values the operands and \<open>C\<close> had at entry, also when \<open>C\<close>
  and \<open>D\<close> are one object. This holds for both specialisations and every leaf primitive.
\<close>

theorem accumulate_writes_only_D:
  "(\<forall>p. p \<noteq> D \<longrightarrow> MmaGeneric_boolA_ref mma_opA sh la lb lc D A B C regs p = regs p) \<and>
   length (MmaGeneric_boolA_ref mma_opA sh la lb lc D A B C regs D) = length (regs C) \<and>
   (B \<noteq> D \<longrightarrow> MmaGeneric_boolA_ref mma_opA sh la lb lc D A B C regs D =
       MmaGeneric_boolA mma_opA sh la lb lc A (regs B) (regs C)) \<and>
   (\<forall>p. p \<noteq> D \<longrightarrow> MmaGeneric_boolB_ref mma_opB sh la lb lc D A' B' C regs p = regs p) \<and>
   length (MmaGeneric_boolB_ref mma_opB sh la lb lc D A' B' C regs D) = length (regs C) \<and>
   (A' \<noteq> D \<longrightarrow> MmaGeneric_boolB_ref mma_opB sh la lb lc D A' B' C regs D =
       MmaGeneric_boolB mma_opB sh la lb lc (regs A') B' (regs C))"
proof (intro conjI allI impI)
  fix p assume "p \<noteq> D"
  then show "MmaGeneric_boolA_ref mma_opA sh la lb lc D A B C regs p = regs p"
    by (simp add: MmaGeneric_boolA_ref_fold fold_write_frame)
next
  fix p assume "p \<noteq> D"
  then show "MmaGeneric_boolB_ref mma_opB sh la lb lc D A' B' C regs p = regs p"
    by (simp add: MmaGeneric_boolB_ref_fold fold_write_frame)
next
  show "length (MmaGeneric_boolA_ref mma_opA sh la lb lc D A B C regs D) = length (regs C)"
    unfolding MmaGeneric_boolA_ref_fold by (subst fold_write_length) simp_all
next
  show "length (MmaGeneric_boolB_ref mma_opB sh la lb lc D A' B' C regs D) = length (regs C)"
    unfolding MmaGeneric_boolB_ref_fold by (subst fold_write_length) simp_all
next
  assume "B \<noteq> D"
  then show "MmaGeneric_boolA_ref mma_opA sh la lb lc D A B C regs D =
       MmaGeneric_boolA mma_opA sh la lb lc A (regs B) (regs C)"
    by (simp add: MmaGeneric_boolA_ref_value)
next
  assume "A' \<noteq> D"
  then show "MmaGeneric_boolB_ref mma_opB sh la lb lc D A' B' C regs D =
       MmaGeneric_boolB mma_opB sh la lb lc (regs A') B' (regs C)"
    by (simp add: MmaGeneric_boolB_ref_value)
qed

theorem accumulate_writes_only_D_witness:
  "(1 :: addr) \<noteq> 0 \<and> (2 :: addr) \<noteq> 0 \<and>
   MmaGeneric_boolA_ref arch_Mma_boolA \<lparr>kM = 1, kN = 1, kK = 1\<rparr> RowMajor RowMajor RowMajor
     0 [True] 1 2 (no_regs(0 := [7 :: int], 1 := [5], 2 := [3])) 1 = [5] \<and>
   MmaGeneric_boolA_ref arch_Mma_boolA \<lparr>kM = 1, kN = 1, kK = 1\<rparr> RowMajor RowMajor RowMajor
     0 [True] 1 2 (no_regs(0 := [7 :: int], 1 := [5], 2 := [3])) 2 = [3] \<and>
   MmaGeneric_boolA_ref arch_Mma_boolA \<lparr>kM = 1, kN = 1, kK = 1\<rparr> RowMajor RowMajor RowMajor
     0 [True] 1 2 (no_regs(0 := [7 :: int], 1 := [5], 2 := [3])) 0 = [8] \<and>
   MmaGeneric_boolB_ref arch_Mma_boolB \<lparr>kM = 1, kN = 1, kK = 1\<rparr> RowMajor RowMajor RowMajor
     0 1 [True] 2 (no_regs(0 := [7 :: int], 1 := [5], 2 := [3])) 2 = [3]"
  using accumulate_writes_only_D [where D = 0 and B = 1 and C = 2 and A = "[True]" and A' = 1
      and B' = "[True]" and regs = "no_regs(0 := [7 :: int], 1 := [5], 2 := [3])"
      and sh = "\<lparr>kM = 1, kN = 1, kK = 1\<rparr>" and la = RowMajor and lb = RowMajor and lc = RowMajor
      and mma_opA = arch_Mma_boolA and mma_opB = arch_Mma_boolB]
  by (simp add: MmaGeneric_boolA_def for_loop.simps [of 0] for_loop.simps [of "Suc 0"]
      m_serpentine_def at_def at_put_def arch_Mma_boolA_def)

section \<open>The dispatch wrappers forward\<close>

text \<open>
  C7. \<^verbatim>\<open>operator()\<close> of each of the two \<^verbatim>\<open>Mma\<close> wrappers produces exactly what the
  \<^verbatim>\<open>MmaGeneric\<close> specialisation of the same parameters produces on the same arguments: the
  same \<open>D\<close> as a function of the values of \<open>A\<close>, \<open>B\<close>, \<open>C\<close>, and, on fragments passed by
  reference, the same register file after the call, so nothing else is read or written.
\<close>

theorem Mma_forwards_to_MmaGeneric:
  "Mma_boolA mma_opA sh la lb lc A B C = MmaGeneric_boolA mma_opA sh la lb lc A B C \<and>
   Mma_boolB mma_opB sh la lb lc A' B' C = MmaGeneric_boolB mma_opB sh la lb lc A' B' C \<and>
   Mma_boolA_ref mma_opA' sh la lb lc pD A pB pC regs =
     MmaGeneric_boolA_ref mma_opA' sh la lb lc pD A pB pC regs \<and>
   Mma_boolB_ref mma_opB' sh la lb lc pD pA B' pC regs =
     MmaGeneric_boolB_ref mma_opB' sh la lb lc pD pA B' pC regs"
  by (simp add: Mma_boolA_def Mma_boolB_def Mma_boolA_ref_def Mma_boolB_ref_def)

section \<open>Warp level\<close>

text \<open>
  C6. \<^verbatim>\<open>SpikeMmaSimt::transform(dst_A, dst_B, A, B)\<close> leaves \<open>dst_A\<close> equal to \<open>A\<close> and
  \<open>dst_B\<close> equal to \<open>B\<close>, whatever the destinations held and for all fragments \<open>A\<close>, \<open>B\<close>
  (of any element types, so in particular when one of them is binary).
\<close>

theorem transform_identity:
  "transform (dst_A, dst_B) A B = (A, B)"
  by (simp add: transform_def)

text \<open>
  C10. \<^verbatim>\<open>use_dp4a\<close> is true exactly when \<^verbatim>\<open>LayoutA\<close> is \<^verbatim>\<open>ColumnMajorInterleaved<4>\<close> or
  \<^verbatim>\<open>RowMajorInterleaved<4>\<close> and both element types are \<^verbatim>\<open>int8_t\<close>; so whenever
  \<^verbatim>\<open>ElementA\<close> or \<^verbatim>\<open>ElementB\<close> is \<^verbatim>\<open>bool\<close>, \<^verbatim>\<open>use_dp4a\<close> is false and \<^verbatim>\<open>dp4a_type\<close> is
  \<^verbatim>\<open>bool\<close>.
\<close>

theorem use_dp4a_off_on_binary_path:
  "(use_dp4a la ea eb \<longleftrightarrow>
      (la = ColumnMajorInterleaved 4 \<or> la = RowMajorInterleaved 4) \<and> ea = Int8_t \<and> eb = Int8_t) \<and>
   (ea = Bool_t \<or> eb = Bool_t \<longrightarrow> \<not> use_dp4a la ea eb \<and> dp4a_type la ea eb = Bool_t)"
  by (auto simp add: use_dp4a_def dp4a_type_def)

theorem use_dp4a_off_on_binary_path_witness:
  "(Bool_t = Bool_t \<or> Float_t = Bool_t) \<and>
   \<not> use_dp4a (ColumnMajorInterleaved 4) Bool_t Float_t \<and>
   dp4a_type (ColumnMajorInterleaved 4) Bool_t Float_t = Bool_t \<and>
   use_dp4a (RowMajorInterleaved 4) Int8_t Int8_t"
  using use_dp4a_off_on_binary_path [of "ColumnMajorInterleaved 4" Bool_t Float_t]
    use_dp4a_off_on_binary_path [of "RowMajorInterleaved 4" Int8_t Int8_t]
  by simp

section \<open>Threadblock level\<close>

text \<open>
  C5. When the SIMT specialisation of \<^verbatim>\<open>SpikeMma\<close> is the one instantiated
  (\<^verbatim>\<open>OpClassSimt\<close>, 2 stages, accumulators not forced row-major, no shared-memory clear)
  and \<^verbatim>\<open>LayoutC\<close> is neither \<^verbatim>\<open>RowMajor\<close> nor \<^verbatim>\<open>AffineRankN<2>\<close>, the build stops at the
  static assertion; in particular it does for a column-major \<^verbatim>\<open>LayoutC\<close>.
\<close>

theorem SpikeMma_rejects_other_accumulator_layouts:
  "(SpikeMma_simt_selected args \<and> LayoutC args \<noteq> Matrix RowMajor \<and> LayoutC args \<noteq> AffineRankN 2
      \<longrightarrow> SpikeMma_instantiate args = Inl (StaticAssertion ''simt epilogue must be row major'')) \<and>
   (SpikeMma_simt_selected args \<and> LayoutC args = Matrix ColumnMajor
      \<longrightarrow> SpikeMma_instantiate args = Inl (StaticAssertion ''simt epilogue must be row major''))"
  by (simp add: SpikeMma_instantiate_def)

theorem SpikeMma_rejects_other_accumulator_layouts_witness:
  "SpikeMma_simt_selected
     \<lparr>LayoutC = Matrix ColumnMajor, OperatorClass = OpClassSimt, Stages = 2,
      AccumulatorsInRowMajor = False, SharedMemoryClear = kNone\<rparr> \<and>
   SpikeMma_instantiate
     \<lparr>LayoutC = Matrix ColumnMajor, OperatorClass = OpClassSimt, Stages = 2,
      AccumulatorsInRowMajor = False, SharedMemoryClear = kNone\<rparr>
     = Inl (StaticAssertion ''simt epilogue must be row major'')"
  using SpikeMma_rejects_other_accumulator_layouts
    [of "\<lparr>LayoutC = Matrix ColumnMajor, OperatorClass = OpClassSimt, Stages = 2,
          AccumulatorsInRowMajor = False, SharedMemoryClear = kNone\<rparr>"]
  by (simp add: SpikeMma_simt_selected_def)

end
